theory Spec2Isabelle
  imports Main
begin

section \<open>Data model\<close>

text \<open>
  The \<^verbatim>\<open>Config\<close> struct of \<^verbatim>\<open>swim.go\<close>. Go's \<^verbatim>\<open>int\<close> fields are
  modelled as \<open>int\<close>: the source only compares them and converts them, it never does
  arithmetic on them that could wrap (the one product, the timer's duration, is wrapped
  explicitly below).
\<close>

record Config =
  MaxlocalCount :: int
  T :: int
  AckTimeOut :: int
  K :: int
  BindAddress :: string
  BindPort :: int

text \<open>
  Modelled from the spec: the \<^verbatim>\<open>Member\<close> struct and its \<^verbatim>\<open>Status\<close> enum
  live in the member registry's file, which is not among the sources. The spec gives a
  member an address, a status (Alive, Suspect, Dead) and an incarnation; \<^verbatim>\<open>probe\<close>
  reads only \<^verbatim>\<open>member.Status\<close> and compares it with \<^verbatim>\<open>Dead\<close>.
\<close>

datatype Status = Alive | Suspect | Dead

record Member =
  Addr :: string
  Status :: Status
  Incarnation :: int

text \<open>
  Modelled from the spec: the protobuf package \<^verbatim>\<open>pb\<close> is not among the sources.
  The spec's message schema is
  \<^verbatim>\<open>Message { id, address, payload: oneof { Ping, Ack{payload:string}, IndirectPing },
  piggyback: optional PiggyBack{ type: Alive|Suspect|Confirm, member, incarnation } }\<close>.
  The source's \<^verbatim>\<open>switch piggyBack.Type\<close> has a \<^verbatim>\<open>default\<close> branch for any
  other numeric value of the enum, here \<open>PiggyBack_Other\<close>. The piggyback is a pointer
  in the source (\<^verbatim>\<open>*pb.PiggyBack\<close>), so it is an \<open>option\<close>, \<open>None\<close> being
  \<^verbatim>\<open>nil\<close>; the payload is an interface value, \<open>None\<close> being \<^verbatim>\<open>nil\<close> as well.
\<close>

datatype PiggyBack_Type =
    PiggyBack_Alive
  | PiggyBack_Confirm
  | PiggyBack_Suspect
  | PiggyBack_Other int

record PiggyBack =
  Type :: PiggyBack_Type
  PbMember :: string
  PbIncarnation :: int

datatype Payload =
    Message_Ping
  | Message_Ack string
  | Message_IndirectPing

record Message =
  Id_msg :: string
  Address :: string
  Payload :: "Payload option"
  PiggyBack :: "PiggyBack option"

text \<open>
  The \<^verbatim>\<open>SWIM\<close> struct. The member map, the message endpoint and the priority
  store are pointers that \<^verbatim>\<open>New\<close> always sets before it returns, so the model
  carries their values (of types left open: their code is not among the sources, and
  the operations the source calls on them are parameters of the functions below).
  \<^verbatim>\<open>pbkStore\<close> is an interface value that \<^verbatim>\<open>New\<close> never sets: it is an
  \<open>option\<close>, \<open>None\<close> being \<^verbatim>\<open>nil\<close>. \<^verbatim>\<open>quitFD\<close> is an unbuffered channel
  of empty structs: the model counts the sends that wait on it for a receiver.
\<close>

record ('mm, 'ep, 'ps, 'pk) SWIM =
  config :: Config
  memberMap :: 'mm
  messageEndpoint :: 'ep
  priorityPBStore :: 'ps
  quitFD :: nat
  pbkStore :: "'pk option"

text \<open>
  \<^verbatim>\<open>PacketTransportConfig\<close>, with the two fields
  \<^verbatim>\<open>messageEndpointFactory\<close> fills in.
\<close>

record PacketTransportConfig =
  ptc_BindAddress :: string
  ptc_BindPort :: int

text \<open>
  A Go panic, as a value: \<^verbatim>\<open>panic(text)\<close> and \<^verbatim>\<open>log.Panic(err)\<close> carry
  a text, reading a field through a nil pointer or calling a method of a nil
  interface is the runtime's nil dereference.
\<close>

datatype panic = Panic string | NilPointerDereference

text \<open>
  What the functions do to the world outside the \<^verbatim>\<open>SWIM\<close> struct, in the order
  the source does it: a message handed to the endpoint's \<^verbatim>\<open>Send\<close>, a line given
  to \<^verbatim>\<open>iLogger.Error\<close>, and, inside \<^verbatim>\<open>probe\<close>, the goroutine that sleeps
  and then sends on \<^verbatim>\<open>end\<close>, the timer, and the deferred \<^verbatim>\<open>close(end)\<close>.
  Durations are \<^verbatim>\<open>time.Duration\<close> values: nanoseconds in an int64.
\<close>

datatype effect =
    Send string Message
  | iLogger_Error string
  | Go_Sleep_Send int
  | NewTimer int
  | Close_end

text \<open>
  Which case of \<^verbatim>\<open>probe\<close>'s \<^verbatim>\<open>select\<close> is taken: the scheduler and the
  clock decide, so it is an input of the model.
\<close>

datatype fired = End_chan | Timer_C

section \<open>Go's primitives used by the source\<close>

definition int64 :: "int \<Rightarrow> int" where
  "int64 x = (x + 2 ^ 63) mod 2 ^ 64 - 2 ^ 63"

definition Second :: int where
  "Second = 1000000000"

definition Millisecond :: int where
  "Millisecond = 1000000"

text \<open>
  Go's conversion \<^verbatim>\<open>string(i)\<close> of an integer: the UTF-8 encoding of the code
  point \<open>i\<close>, and of U+FFFD when \<open>i\<close> is not a valid code point (negative, beyond
  U+10FFFF, or a surrogate). It is not the decimal text of \<open>i\<close>.
\<close>

definition string_of_rune :: "int \<Rightarrow> string" where
  "string_of_rune i =
     (if i < 0 \<or> 1114111 < i \<or> (55296 \<le> i \<and> i \<le> 57343)
      then [char_of (239::int), char_of (191::int), char_of (189::int)]
      else if i \<le> 127 then [char_of i]
      else if i \<le> 2047 then [char_of (192 + i div 64), char_of (128 + i mod 64)]
      else if i \<le> 65535
      then [char_of (224 + i div 4096), char_of (128 + (i div 64) mod 64),
            char_of (128 + i mod 64)]
      else [char_of (240 + i div 262144), char_of (128 + (i div 4096) mod 64),
            char_of (128 + (i div 64) mod 64), char_of (128 + i mod 64)])"

section \<open>Construction\<close>

text \<open>
  \<^verbatim>\<open>messageEndpointFactory\<close>: builds the packet transport from the bind address
  and port, then the endpoint; either constructor's error goes to \<^verbatim>\<open>log.Panic\<close>.
  The two constructors are not among the sources and are parameters; an error is its
  text. (The source also hands the endpoint a pointer to the \<^verbatim>\<open>SWIM\<close> being built,
  as its message handler; the model leaves that back reference out.)
\<close>

definition messageEndpointFactory ::
  "(PacketTransportConfig \<Rightarrow> string + 'pt) \<Rightarrow> ('mc \<Rightarrow> 'pt \<Rightarrow> 'aw \<Rightarrow> string + 'ep) \<Rightarrow>
   Config \<Rightarrow> 'mc \<Rightarrow> 'aw \<Rightarrow> panic + 'ep" where
  "messageEndpointFactory NewPacketTransport NewMessageEndpoint config' messageEndpointConfig awareness =
     (let packetTransportConfig =
            \<lparr>ptc_BindAddress = BindAddress config', ptc_BindPort = BindPort config'\<rparr>
      in case NewPacketTransport packetTransportConfig of
           Inl err \<Rightarrow> Inl (Panic err)
         | Inr packetTransport \<Rightarrow>
             (case NewMessageEndpoint messageEndpointConfig packetTransport awareness of
                Inl err \<Rightarrow> Inl (Panic err)
              | Inr messageEndpoint' \<Rightarrow> Inr messageEndpoint'))"

text \<open>
  \<^verbatim>\<open>New\<close>. The configuration is passed by pointer in the source; the model takes
  the configuration itself (a nil pointer is no configuration). The check of \<open>T\<close>
  against \<open>AckTimeOut\<close> comes first; the struct is filled in, with
  \<^verbatim>\<open>messageEndpoint\<close> and \<^verbatim>\<open>pbkStore\<close> left nil; the factory's endpoint is
  stored last. \<^verbatim>\<open>NewMemberMap\<close> and \<^verbatim>\<open>NewPriorityPBStore\<close> are parameters.
\<close>

definition New ::
  "'mm \<Rightarrow> (int \<Rightarrow> 'ps) \<Rightarrow>
   (PacketTransportConfig \<Rightarrow> string + 'pt) \<Rightarrow> ('mc \<Rightarrow> 'pt \<Rightarrow> 'aw \<Rightarrow> string + 'ep) \<Rightarrow>
   Config \<Rightarrow> 'mc \<Rightarrow> 'aw \<Rightarrow> panic + ('mm, 'ep, 'ps, 'pk) SWIM" where
  "New NewMemberMap NewPriorityPBStore NewPacketTransport NewMessageEndpoint
       config' messageEndpointConfig awareness =
     (if T config' < AckTimeOut config'
      then Inl (Panic ''T time must be longer than ack time-out'')
      else case messageEndpointFactory NewPacketTransport NewMessageEndpoint
                  config' messageEndpointConfig awareness of
             Inl p \<Rightarrow> Inl p
           | Inr messageEndpoint' \<Rightarrow>
               Inr \<lparr>config = config',
                    memberMap = NewMemberMap,
                    messageEndpoint = messageEndpoint',
                    priorityPBStore = NewPriorityPBStore (MaxlocalCount config'),
                    quitFD = 0,
                    pbkStore = None\<rparr>)"

section \<open>Facade\<close>

definition Join ::
  "('mm, 'ep, 'ps, 'pk) SWIM \<Rightarrow> string list \<Rightarrow>
   string option \<times> ('mm, 'ep, 'ps, 'pk) SWIM \<times> effect list" where
  "Join s peerAddresses = (None, s, [])"

definition ShutDown :: "('mm, 'ep, 'ps, 'pk) SWIM \<Rightarrow> ('mm, 'ep, 'ps, 'pk) SWIM" where
  "ShutDown s = s\<lparr>quitFD := Suc (quitFD s)\<rparr>"

section \<open>Failure detector\<close>

text \<open>
  \<^verbatim>\<open>probe\<close>. Both cases of the \<^verbatim>\<open>select\<close> only return; the deferred
  \<^verbatim>\<open>close(end)\<close> runs on the way out of either. No \<^verbatim>\<open>Ping\<close> is sent and
  no \<^verbatim>\<open>Ack\<close> is waited for: the \<^verbatim>\<open>end\<close> channel is fed by a goroutine
  that sleeps for a second. (When the timer's case is taken that goroutine is still
  asleep; what its later send on the closed channel does happens after \<^verbatim>\<open>probe\<close>
  has returned and is not part of what \<^verbatim>\<open>probe\<close> returns.)
\<close>

definition probe ::
  "('mm, 'ep, 'ps, 'pk) SWIM \<Rightarrow> Member \<Rightarrow> fired \<Rightarrow> ('mm, 'ep, 'ps, 'pk) SWIM \<times> effect list" where
  "probe s member sel =
     (if Status member = Dead then (s, [])
      else
        let started = [Go_Sleep_Send (int64 (1 * Second)),
                       NewTimer (int64 (Millisecond * int64 (T (config s))))]
        in case sel of
             End_chan \<Rightarrow> (s, started @ [Close_end])
           | Timer_C \<Rightarrow> (s, started @ [Close_end]))"

text \<open>The \<^verbatim>\<open>for _, member := range members\<close> loop of one round.\<close>

fun probe_members ::
  "('mm, 'ep, 'ps, 'pk) SWIM \<Rightarrow> Member list \<Rightarrow> (Member \<Rightarrow> fired) \<Rightarrow>
   ('mm, 'ep, 'ps, 'pk) SWIM \<times> effect list" where
  "probe_members s [] sel = (s, [])"
| "probe_members s (member # members) sel =
     (case probe s member (sel member) of
        (s1, fx1) \<Rightarrow>
          (case probe_members s1 members sel of
             (s2, fx2) \<Rightarrow> (s2, fx1 @ fx2)))"

text \<open>
  One iteration of the \<^verbatim>\<open>for\<close> loop in the goroutine of
  \<^verbatim>\<open>startFailureDetector\<close>: snapshot, probe each member, reset. \<^verbatim>\<open>GetMembers\<close>
  and \<^verbatim>\<open>Reset\<close> belong to the member map, whose code is not among the sources:
  they are parameters.
\<close>

definition startFailureDetector_round ::
  "('mm \<Rightarrow> Member list) \<Rightarrow> ('mm \<Rightarrow> 'mm) \<Rightarrow> (Member \<Rightarrow> fired) \<Rightarrow>
   ('mm, 'ep, 'ps, 'pk) SWIM \<Rightarrow> ('mm, 'ep, 'ps, 'pk) SWIM \<times> effect list" where
  "startFailureDetector_round GetMembers Reset sel s =
     (let members = GetMembers (memberMap s)
      in case probe_members s members sel of
           (s1, fx) \<Rightarrow> (s1\<lparr>memberMap := Reset (memberMap s1)\<rparr>, fx))"

text \<open>
  The goroutine's \<^verbatim>\<open>for { ... }\<close>: it has no condition, no \<^verbatim>\<open>break\<close> and no
  \<^verbatim>\<open>return\<close>. The result is the state the loop returns with, if it ever does;
  \<open>sel n\<close> gives the outcomes of the probes of round \<open>n\<close>.
\<close>

partial_function (option) startFailureDetector_loop ::
  "('mm \<Rightarrow> Member list) \<Rightarrow> ('mm \<Rightarrow> 'mm) \<Rightarrow> (nat \<Rightarrow> Member \<Rightarrow> fired) \<Rightarrow> nat \<Rightarrow>
   ('mm, 'ep, 'ps, 'pk) SWIM \<Rightarrow> ('mm, 'ep, 'ps, 'pk) SWIM option" where
  "startFailureDetector_loop GetMembers Reset sel n s =
     startFailureDetector_loop GetMembers Reset sel (Suc n)
       (fst (startFailureDetector_round GetMembers Reset (sel n) s))"

text \<open>
  The receive \<^verbatim>\<open><-s.quitFD\<close> that \<^verbatim>\<open>startFailureDetector\<close> itself blocks on
  after starting the goroutine: it returns once a send is waiting, and takes it.
\<close>

definition startFailureDetector_recv ::
  "('mm, 'ep, 'ps, 'pk) SWIM \<Rightarrow> ('mm, 'ep, 'ps, 'pk) SWIM option" where
  "startFailureDetector_recv s =
     (if quitFD s = 0 then None else Some (s\<lparr>quitFD := quitFD s - 1\<rparr>))"

section \<open>Message handling\<close>

text \<open>
  \<^verbatim>\<open>handlePbk\<close>. \<^verbatim>\<open>piggyBack.Type\<close> reads through the pointer. Every branch
  of the \<^verbatim>\<open>switch\<close> holds a comment only, so \<^verbatim>\<open>hasChanged\<close> keeps the value it
  was declared with. \<^verbatim>\<open>Push\<close> belongs to the \<^verbatim>\<open>PBkStore\<close> interface and is a
  parameter.
\<close>

definition handlePbk ::
  "(PiggyBack \<Rightarrow> 'pk \<Rightarrow> 'pk) \<Rightarrow> ('mm, 'ep, 'ps, 'pk) SWIM \<Rightarrow> PiggyBack option \<Rightarrow>
   panic + ('mm, 'ep, 'ps, 'pk) SWIM" where
  "handlePbk Push s piggyBack =
     (case piggyBack of
        None \<Rightarrow> Inl NilPointerDereference
      | Some pb \<Rightarrow>
          let hasChanged = False;
              hasChanged = (case Type pb of
                              PiggyBack_Alive \<Rightarrow> hasChanged
                            | PiggyBack_Confirm \<Rightarrow> hasChanged
                            | PiggyBack_Suspect \<Rightarrow> hasChanged
                            | PiggyBack_Other _ \<Rightarrow> hasChanged)
          in if hasChanged
             then (case pbkStore s of
                     None \<Rightarrow> Inl NilPointerDereference
                   | Some store \<Rightarrow> Inr (s\<lparr>pbkStore := Some (Push pb store)\<rparr>))
             else Inr s)"

text \<open>
  \<^verbatim>\<open>pingHandler\<close>. \<^verbatim>\<open>Get\<close> belongs to the priority store and is a parameter:
  it returns a record and an error (\<open>None\<close> being \<^verbatim>\<open>nil\<close>, \<open>Some\<close> the error's
  text), and the store it leaves. The source logs the error and goes on; the message
  it sends always points to the record \<^verbatim>\<open>Get\<close> returned.
\<close>

definition pingHandler ::
  "('ps \<Rightarrow> (PiggyBack \<times> string option) \<times> 'ps) \<Rightarrow> ('mm, 'ep, 'ps, 'pk) SWIM \<Rightarrow> Message \<Rightarrow>
   ('mm, 'ep, 'ps, 'pk) SWIM \<times> effect list" where
  "pingHandler Get s msg =
     (let Address' = BindAddress (config s) @ '':'' @ string_of_rune (BindPort (config s))
      in case Get (priorityPBStore s) of
           ((piggyBack, err), store) \<Rightarrow>
             (s\<lparr>priorityPBStore := store\<rparr>,
              (case err of None \<Rightarrow> [] | Some e \<Rightarrow> [iLogger_Error e]) @
              [Send (Address msg)
                 \<lparr>Id_msg = Id_msg msg,
                  Address = Address',
                  Payload = Some (Message_Ack ''''),
                  PiggyBack = Some piggyBack\<rparr>]))"

definition handle ::
  "('ps \<Rightarrow> (PiggyBack \<times> string option) \<times> 'ps) \<Rightarrow> (PiggyBack \<Rightarrow> 'pk \<Rightarrow> 'pk) \<Rightarrow>
   ('mm, 'ep, 'ps, 'pk) SWIM \<Rightarrow> Message \<Rightarrow> panic + ('mm, 'ep, 'ps, 'pk) SWIM \<times> effect list" where
  "handle Get Push s msg =
     (case handlePbk Push s (PiggyBack msg) of
        Inl p \<Rightarrow> Inl p
      | Inr s1 \<Rightarrow>
          (case Payload msg of
             Some Message_Ping \<Rightarrow> Inr (pingHandler Get s1 msg)
           | Some (Message_Ack _) \<Rightarrow> Inr (s1, [])
           | Some Message_IndirectPing \<Rightarrow> Inr (s1, [])
           | None \<Rightarrow> Inr (s1, [])))"

text \<open>The messages an effect trace hands to the transport, in order.\<close>

fun sent :: "effect list \<Rightarrow> (string \<times> Message) list" where
  "sent [] = []"
| "sent (Send to' m # fx) = (to', m) # sent fx"
| "sent (_ # fx) = sent fx"


section \<open>A store and a node to run the handlers on\<close>

text \<open>
  Modelled from the spec: \<^verbatim>\<open>Get\<close> of the Gossip Store (\<^verbatim>\<open>PriorityPBStore\<close>),
  whose code is not among the sources. The spec: each record has a remaining-replay
  counter; \<^verbatim>\<open>Get()\<close> returns the highest-priority record, decrements its counter,
  evicts it when the counter reaches zero, and fails with \<^verbatim>\<open>EmptyStore\<close> when no
  record is pending. The store is a list of records with their counters, the
  highest priority first. A Go function that fails still returns a record beside the
  error; the spec does not say which, and the model returns the zero record (taking
  Alive as the zero of the enum). The theorems on \<^verbatim>\<open>pingHandler\<close> hold for any
  \<^verbatim>\<open>Get\<close>; this one only serves to run the handler on concrete inputs.
\<close>

definition ErrStoreEmpty :: string where
  "ErrStoreEmpty = ''empty store''"

definition zero_PiggyBack :: PiggyBack where
  "zero_PiggyBack = \<lparr>Type = PiggyBack_Alive, PbMember = [], PbIncarnation = 0\<rparr>"

fun PriorityPBStore_Get ::
  "(PiggyBack \<times> nat) list \<Rightarrow> (PiggyBack \<times> string option) \<times> (PiggyBack \<times> nat) list" where
  "PriorityPBStore_Get [] = ((zero_PiggyBack, Some ErrStoreEmpty), [])"
| "PriorityPBStore_Get ((r, n) # q) = ((r, None), (if n \<le> 1 then q else (r, n - 1) # q))"

text \<open>
  A node bound to 127.0.0.1:8080 whose store is empty, the state \<^verbatim>\<open>New\<close> builds
  from this configuration (with a member map of one member), and a \<^verbatim>\<open>Ping\<close> it
  receives from 10.0.0.2:7946.
\<close>

definition node_8080 :: "(Member list, unit, (PiggyBack \<times> nat) list, unit) SWIM" where
  "node_8080 =
     \<lparr>config = \<lparr>MaxlocalCount = 2, T = 500, AckTimeOut = 100, K = 2,
                  BindAddress = ''127.0.0.1'', BindPort = 8080\<rparr>,
      memberMap = [\<lparr>Addr = ''10.0.0.2:7946'', Status = Alive, Incarnation = 1\<rparr>],
      messageEndpoint = (),
      priorityPBStore = [],
      quitFD = 0,
      pbkStore = None\<rparr>"

definition ping_42 :: Message where
  "ping_42 =
     \<lparr>Id_msg = ''42'', Address = ''10.0.0.2:7946'', Payload = Some Message_Ping,
      PiggyBack = Some \<lparr>Type = PiggyBack_Suspect, PbMember = ''10.0.0.9:7946'',
                         PbIncarnation = 4\<rparr>\<rparr>"

section \<open>Helper facts\<close>

lemma probe_state: "fst (probe s member sel) = s"
  by (simp add: probe_def Let_def split: fired.split)

lemma probe_members_state: "fst (probe_members s members sel) = s"
proof (induction members)
  case Nil
  show ?case by simp
next
  case (Cons member members)
  obtain fx1 where p: "probe s member (sel member) = (s, fx1)"
    using probe_state [of s member "sel member"]
    by (cases "probe s member (sel member)") simp
  obtain fx2 where ps: "probe_members s members sel = (s, fx2)"
    using Cons.IH by (cases "probe_members s members sel") simp
  show ?case by (simp add: p ps)
qed

lemma probe_members_effects:
  "snd (probe_members s members sel) =
   concat (map (\<lambda>member. snd (probe s member (sel member))) members)"
proof (induction members)
  case Nil
  show ?case by simp
next
  case (Cons member members)
  obtain fx1 where p: "probe s member (sel member) = (s, fx1)"
    using probe_state [of s member "sel member"]
    by (cases "probe s member (sel member)") simp
  obtain fx2 where ps: "probe_members s members sel = (s, fx2)"
    using probe_members_state [of s members sel]
    by (cases "probe_members s members sel") simp
  from Cons.IH show ?case by (simp add: p ps)
qed

text \<open>
  One round is what the source's comment says: every member of the snapshot that
  \<^verbatim>\<open>GetMembers\<close> returned is probed, in order, and then the member map is reset.
\<close>

lemma startFailureDetector_round_state:
  "fst (startFailureDetector_round GetMembers Reset sel s) =
   s\<lparr>memberMap := Reset (memberMap s)\<rparr>"
proof -
  obtain fx where "probe_members s (GetMembers (memberMap s)) sel = (s, fx)"
    using probe_members_state [of s "GetMembers (memberMap s)" sel]
    by (cases "probe_members s (GetMembers (memberMap s)) sel") simp
  then show ?thesis by (simp add: startFailureDetector_round_def)
qed

lemma startFailureDetector_round_effects:
  "snd (startFailureDetector_round GetMembers Reset sel s) =
   concat (map (\<lambda>member. snd (probe s member (sel member))) (GetMembers (memberMap s)))"
proof -
  have "snd (startFailureDetector_round GetMembers Reset sel s) =
        snd (probe_members s (GetMembers (memberMap s)) sel)"
    by (simp add: startFailureDetector_round_def split: prod.split)
  then show ?thesis by (simp add: probe_members_effects)
qed

lemma startFailureDetector_loop_no_result:
  "startFailureDetector_loop GetMembers Reset sel n s \<noteq> Some s'"
proof
  assume "startFailureDetector_loop GetMembers Reset sel n s = Some s'"
  then show False
  proof (rule startFailureDetector_loop.raw_induct
      [where P = "\<lambda>_ _ _ _ _ _. False", rotated])
    fix loop :: "('a \<Rightarrow> Member list) \<Rightarrow> ('a \<Rightarrow> 'a) \<Rightarrow> (nat \<Rightarrow> Member \<Rightarrow> fired) \<Rightarrow> nat \<Rightarrow>
      ('a, 'b, 'c, 'd) SWIM \<Rightarrow> ('a, 'b, 'c, 'd) SWIM option"
    fix G R c k and x y :: "('a, 'b, 'c, 'd) SWIM"
    assume later: "\<And>G R c k x y. loop G R c k x = Some y \<Longrightarrow> False"
      and body: "loop G R c (Suc k) (fst (startFailureDetector_round G R (c k) x)) = Some y"
    from body show False by (rule later)
  qed
qed

lemma startFailureDetector_loop_never_returns:
  "startFailureDetector_loop GetMembers Reset sel n s = None"
proof (cases "startFailureDetector_loop GetMembers Reset sel n s")
  case None
  then show ?thesis .
next
  case (Some s')
  with startFailureDetector_loop_no_result [of GetMembers Reset sel n s s']
  show ?thesis by simp
qed

lemma handlePbk_present: "handlePbk Push s (Some pb) = Inr s"
  by (simp add: handlePbk_def split: PiggyBack_Type.split)

lemma handlePbk_nil: "handlePbk Push s None = Inl NilPointerDereference"
  by (simp add: handlePbk_def)

lemma pingHandler_effects:
  "snd (pingHandler Get s msg) =
   (case snd (fst (Get (priorityPBStore s))) of None \<Rightarrow> [] | Some e \<Rightarrow> [iLogger_Error e]) @
   [Send (Address msg)
      \<lparr>Id_msg = Id_msg msg,
       Address = BindAddress (config s) @ '':'' @ string_of_rune (BindPort (config s)),
       Payload = Some (Message_Ack ''''),
       PiggyBack = Some (fst (fst (Get (priorityPBStore s))))\<rparr>]"
  by (simp add: pingHandler_def split: prod.split)

lemma pingHandler_state:
  "fst (pingHandler Get s msg) = s\<lparr>priorityPBStore := snd (Get (priorityPBStore s))\<rparr>"
  by (simp add: pingHandler_def split: prod.split)

lemma sent_append: "sent (fx @ gx) = sent fx @ sent gx"
  by (induction fx rule: sent.induct) simp_all

lemma pingHandler_sent:
  "sent (snd (pingHandler Get s msg)) =
   [(Address msg,
     \<lparr>Id_msg = Id_msg msg,
      Address = BindAddress (config s) @ '':'' @ string_of_rune (BindPort (config s)),
      Payload = Some (Message_Ack ''''),
      PiggyBack = Some (fst (fst (Get (priorityPBStore s))))\<rparr>)]"
  by (simp add: pingHandler_effects sent_append split: option.split)

text \<open>
  For a \<^verbatim>\<open>Ping\<close> whose piggyback is present, \<^verbatim>\<open>handle\<close> is \<^verbatim>\<open>pingHandler\<close>:
  one \<^verbatim>\<open>Ack\<close>, to the sender's address, with the \<^verbatim>\<open>Ping\<close>'s id and the record
  \<^verbatim>\<open>Get\<close> returned.
\<close>

lemma handle_Ping_present:
  "Payload msg = Some Message_Ping \<Longrightarrow> PiggyBack msg = Some pb \<Longrightarrow>
   handle Get Push s msg = Inr (pingHandler Get s msg)"
  by (simp add: handle_def handlePbk_present)

text \<open>
  \<^verbatim>\<open>New\<close> panics with its own message exactly when \<open>T < AckTimeOut\<close>, whatever the
  constructors of the transport and the endpoint would do: the check comes first.
\<close>

lemma New_T_shorter_panics:
  "T c < AckTimeOut c \<Longrightarrow>
   New NewMemberMap NewPriorityPBStore NewPacketTransport NewMessageEndpoint c mc aw =
   Inl (Panic ''T time must be longer than ack time-out'')"
  by (simp add: New_def)

lemma New_T_not_shorter:
  "\<not> T c < AckTimeOut c \<Longrightarrow>
   New NewMemberMap NewPriorityPBStore NewPacketTransport NewMessageEndpoint c mc aw =
   (case messageEndpointFactory NewPacketTransport NewMessageEndpoint c mc aw of
      Inl p \<Rightarrow> Inl p
    | Inr ep \<Rightarrow>
        Inr \<lparr>config = c, memberMap = NewMemberMap, messageEndpoint = ep,
             priorityPBStore = NewPriorityPBStore (MaxlocalCount c), quitFD = 0,
             pbkStore = None\<rparr>)"
  by (simp add: New_def)

lemma New_T_50_AckTimeOut_100:
  "New NewMemberMap NewPriorityPBStore NewPacketTransport NewMessageEndpoint
     \<lparr>MaxlocalCount = m, T = 50, AckTimeOut = 100, K = k, BindAddress = a, BindPort = p\<rparr>
     mc aw =
   Inl (Panic ''T time must be longer than ack time-out'')"
  by (simp add: New_def)

section \<open>The claims\<close>

text \<open>
  C1. The claim: when no \<^verbatim>\<open>Ack\<close> has arrived by the time the outer timer of
  duration \<open>T\<close> fires, \<^verbatim>\<open>probe\<close> calls \<^verbatim>\<open>MarkSuspect\<close> on the member registry.
  The source's \<^verbatim>\<open>case <-T.C:\<close> holds the comment "Suspect the member." and a
  \<^verbatim>\<open>return\<close>. For an Alive or a Suspect member and the timer's case,
  \<^verbatim>\<open>probe\<close> gives back the state it was given, member map included, and all it
  did was to start the sleeping goroutine and the timer and to close \<^verbatim>\<open>end\<close>:
  the registry is not called. For every member the outcome of the timer's case is
  the one of the other case.
\<close>

theorem probe_Timer_C_marks_nothing:
  "probe s \<lparr>Addr = a, Status = Alive, Incarnation = i\<rparr> Timer_C =
     (s, [Go_Sleep_Send 1000000000,
          NewTimer (int64 (1000000 * int64 (T (config s)))),
          Close_end]) \<and>
   probe s \<lparr>Addr = a, Status = Suspect, Incarnation = i\<rparr> Timer_C =
     (s, [Go_Sleep_Send 1000000000,
          NewTimer (int64 (1000000 * int64 (T (config s)))),
          Close_end]) \<and>
   probe s member Timer_C = probe s member End_chan"
  by (simp add: probe_def Second_def Millisecond_def int64_def)

text \<open>
  C2. The claim: \<^verbatim>\<open>New\<close> fails whenever \<open>T \<le> AckTimeOut\<close>. The source tests
  \<open>T < AckTimeOut\<close> and panics with "T time must be longer than ack time-out". With
  \<open>T = AckTimeOut = 100\<close> the test passes: \<^verbatim>\<open>New\<close> goes on to build the packet
  transport and the endpoint and, when both succeed, returns the instance.
\<close>

theorem New_T_equal_AckTimeOut_constructs:
  "New NewMemberMap NewPriorityPBStore (\<lambda>ptc. Inr transport) (\<lambda>mc pt aw. Inr endpoint)
     \<lparr>MaxlocalCount = 2, T = 100, AckTimeOut = 100, K = 2,
      BindAddress = ''127.0.0.1'', BindPort = 8080\<rparr>
     messageEndpointConfig awareness =
   Inr \<lparr>config = \<lparr>MaxlocalCount = 2, T = 100, AckTimeOut = 100, K = 2,
                   BindAddress = ''127.0.0.1'', BindPort = 8080\<rparr>,
        memberMap = NewMemberMap,
        messageEndpoint = endpoint,
        priorityPBStore = NewPriorityPBStore 2,
        quitFD = 0,
        pbkStore = None\<rparr>"
  by (simp add: New_def messageEndpointFactory_def)

text \<open>
  C3. For every member whose status is Dead, \<^verbatim>\<open>probe\<close> returns at once: the state
  is the one it was given, and nothing happens outside it: no message is handed to
  the transport, no goroutine and no timer are started.
\<close>

theorem probe_Dead_skips:
  "Status member = Dead \<Longrightarrow> probe s member sel = (s, [])"
  by (simp add: probe_def)

theorem probe_Dead_skips_witness:
  "Status \<lparr>Addr = ''10.0.0.7:7946'', Status = Dead, Incarnation = 3\<rparr> = Dead \<and>
   probe node_8080 \<lparr>Addr = ''10.0.0.7:7946'', Status = Dead, Incarnation = 3\<rparr> Timer_C =
   (node_8080, []) \<and>
   probe node_8080 \<lparr>Addr = ''10.0.0.7:7946'', Status = Alive, Incarnation = 3\<rparr> Timer_C \<noteq>
   (node_8080, [])"
  using probe_Dead_skips
    [of "\<lparr>Addr = ''10.0.0.7:7946'', Status = Dead, Incarnation = 3\<rparr>" node_8080 Timer_C]
  by (simp add: probe_def)

text \<open>
  C4. The claim: for every received message whose payload is a \<^verbatim>\<open>Ping\<close>,
  \<^verbatim>\<open>handle\<close> replies with an \<^verbatim>\<open>Ack\<close>. \<^verbatim>\<open>handle\<close> first gives the message's
  piggyback pointer to \<^verbatim>\<open>handlePbk\<close>, which reads \<^verbatim>\<open>piggyBack.Type\<close> through
  it. For a \<^verbatim>\<open>Ping\<close> with no piggyback the read panics before \<^verbatim>\<open>pingHandler\<close>
  is reached, so no \<^verbatim>\<open>Ack\<close> is sent. (With a piggyback present the \<^verbatim>\<open>Ack\<close> is
  sent as the claim says: \<open>handle_Ping_present\<close> and \<open>pingHandler_sent\<close>.)
\<close>

theorem handle_Ping_without_piggyback_sends_no_Ack:
  "handle Get Push s
     \<lparr>Id_msg = ''42'', Address = ''10.0.0.2:7946'', Payload = Some Message_Ping,
      PiggyBack = None\<rparr> =
   Inl NilPointerDereference"
  by (simp add: handle_def handlePbk_nil)

text \<open>
  C5. The claim: \<^verbatim>\<open>handle\<close> applies a message's piggyback record to the member
  registry by the operation its type selects, and pushes it into the store exactly when
  the registry reports a change. In the source every branch of \<^verbatim>\<open>handlePbk\<close>'s
  \<^verbatim>\<open>switch\<close> is a comment ("Call Alive function in memberMap." and its like) and
  \<^verbatim>\<open>hasChanged\<close> stays false: for every record, of every type, \<^verbatim>\<open>handlePbk\<close>
  gives back the state it was given, and so does \<^verbatim>\<open>handle\<close> for an \<^verbatim>\<open>Ack\<close>
  that carries the record: member map and store are as before.
\<close>

theorem handlePbk_applies_nothing:
  "handlePbk Push s (Some pb) = Inr s \<and>
   handle Get Push s
     \<lparr>Id_msg = i, Address = a, Payload = Some (Message_Ack p), PiggyBack = Some pb\<rparr> =
   Inr (s, [])"
  by (simp add: handle_def handlePbk_present)

text \<open>
  C6. The claim: the round loop ends when it observes, at the top of an iteration, the
  signal \<^verbatim>\<open>ShutDown\<close> sent. Each iteration is a snapshot, the probes and a reset
  (\<open>startFailureDetector_round_state\<close>, \<open>startFailureDetector_round_effects\<close>), but
  the loop is a bare \<^verbatim>\<open>for\<close> that never reads \<^verbatim>\<open>quitFD\<close>: after
  \<^verbatim>\<open>ShutDown\<close> it still never returns. Only the receive in
  \<^verbatim>\<open>startFailureDetector\<close> itself takes the signal.
\<close>

theorem startFailureDetector_loop_ignores_ShutDown:
  "startFailureDetector_loop GetMembers Reset sel n (ShutDown s) = None \<and>
   startFailureDetector_recv (ShutDown s) = Some s"
proof
  show "startFailureDetector_loop GetMembers Reset sel n (ShutDown s) = None"
    by (rule startFailureDetector_loop_never_returns)
  show "startFailureDetector_recv (ShutDown s) = Some s"
    by (simp add: startFailureDetector_recv_def ShutDown_def)
qed

text \<open>
  C7. The claim: a message whose piggyback is absent is handled safely, the piggyback
  step being skipped. \<^verbatim>\<open>handlePbk\<close> has no nil check: for every message with a nil
  piggyback, whatever its payload, \<^verbatim>\<open>handle\<close> panics with a nil dereference.
\<close>

theorem handle_nil_piggyback_panics:
  "handle Get Push s \<lparr>Id_msg = i, Address = a, Payload = p, PiggyBack = None\<rparr> =
   Inl NilPointerDereference"
  by (simp add: handle_def handlePbk_nil)

text \<open>
  C8, as stated: when \<^verbatim>\<open>Get\<close> reports the empty store, the \<^verbatim>\<open>Ack\<close> goes out
  without a piggyback payload. On the node with the empty store, \<^verbatim>\<open>Get\<close> reports
  the error, and the one message sent has a piggyback: the record that came back
  beside the error.
\<close>

theorem pingHandler_empty_store_counterexample:
  "snd (fst (PriorityPBStore_Get (priorityPBStore node_8080))) = Some ''empty store'' \<and>
   length (sent (snd (pingHandler PriorityPBStore_Get node_8080 ping_42))) = 1 \<and>
   PiggyBack (snd (hd (sent (snd (pingHandler PriorityPBStore_Get node_8080 ping_42))))) \<noteq> None"
  by (simp add: pingHandler_sent node_8080_def ErrStoreEmpty_def)

text \<open>
  C8, amended. Whenever \<^verbatim>\<open>Get\<close> reports an error during ping handling, the error
  is logged and nothing else is done about it: the \<^verbatim>\<open>Ack\<close> is still sent, to the
  sender's address and with the \<^verbatim>\<open>Ping\<close>'s id, and its piggyback field is present
  and holds the record \<^verbatim>\<open>Get\<close> returned beside the error.
\<close>

theorem pingHandler_Get_error_still_acks:
  "snd (fst (Get (priorityPBStore s))) = Some e \<Longrightarrow>
   snd (pingHandler Get s msg) =
   [iLogger_Error e,
    Send (Address msg)
      \<lparr>Id_msg = Id_msg msg,
       Address = BindAddress (config s) @ '':'' @ string_of_rune (BindPort (config s)),
       Payload = Some (Message_Ack ''''),
       PiggyBack = Some (fst (fst (Get (priorityPBStore s))))\<rparr>]"
  by (simp add: pingHandler_effects)

theorem pingHandler_Get_error_still_acks_witness:
  "snd (fst (PriorityPBStore_Get (priorityPBStore node_8080))) = Some ''empty store'' \<and>
   snd (pingHandler PriorityPBStore_Get node_8080 ping_42) =
   [iLogger_Error ''empty store'',
    Send ''10.0.0.2:7946''
      \<lparr>Id_msg = ''42'',
       Address = ''127.0.0.1:'' @ [CHR 0xE1, CHR 0xBE, CHR 0x90],
       Payload = Some (Message_Ack ''''),
       PiggyBack = Some \<lparr>Type = PiggyBack_Alive, PbMember = [], PbIncarnation = 0\<rparr>\<rparr>]"
  using pingHandler_Get_error_still_acks
    [of PriorityPBStore_Get node_8080 "''empty store''" ping_42]
  by (simp add: node_8080_def ping_42_def ErrStoreEmpty_def zero_PiggyBack_def
      string_of_rune_def char_of_def)

text \<open>
  C9. The claim: \<^verbatim>\<open>Join\<close> tries each seed and returns an error exactly when none
  succeeds. The source's \<^verbatim>\<open>Join\<close> is \<^verbatim>\<open>return nil\<close> under the comment "Dial to
  the all peerAddresses and exchange memberList": for every seed list it returns no
  error, leaves the state as it was and sends nothing.
\<close>

theorem Join_does_nothing:
  "Join s peerAddresses = (None, s, [])"
  by (simp add: Join_def)

text \<open>
  C10. The claim: the \<^verbatim>\<open>Ack\<close>'s sender address is \<^verbatim>\<open>BindAddress\<close>, a colon and
  the decimal text of \<^verbatim>\<open>BindPort\<close>. The source builds it with
  \<^verbatim>\<open>string(s.config.BindPort)\<close>, Go's conversion of an integer to the UTF-8
  encoding of that code point. Bound to 127.0.0.1 and port 8080, the \<^verbatim>\<open>Ack\<close>'s
  address ends in the three bytes of U+1F90 and is not 127.0.0.1:8080.
\<close>

theorem pingHandler_Address_is_not_decimal:
  "map (Address \<circ> snd)
     (sent (snd (pingHandler Get
        (s\<lparr>config := \<lparr>MaxlocalCount = 2, T = 500, AckTimeOut = 100, K = 2,
                       BindAddress = ''127.0.0.1'', BindPort = 8080\<rparr>\<rparr>) msg))) =
     [''127.0.0.1:'' @ [CHR 0xE1, CHR 0xBE, CHR 0x90]] \<and>
   ''127.0.0.1:'' @ [CHR 0xE1, CHR 0xBE, CHR 0x90] \<noteq> ''127.0.0.1:8080''"
  by (simp add: pingHandler_sent string_of_rune_def char_of_def)

end
